theory Spec2Isabelle
  imports Main
begin

section \<open>The component \<open>App\<close> of \<open>src/App.jsx\<close>\<close>

text \<open>
  The file defines one function component. It holds two numbers in \<open>useState\<close> cells,
  builds one click handler per number, caches \<open>count1 * 60 * 5\<close> with \<open>useMemo\<close>
  under the dependency list \<open>[count1]\<close>, and returns the element tree that shows the
  three values and the two buttons.

  Numbers: the counters are JavaScript numbers that start at \<open>0\<close> and only ever receive
  \<open>+ 1\<close>, so they hold integers; the specification puts overflow out of scope and speaks
  of unbounded integers, and the running application is modelled over \<open>int\<close> accordingly.
  The code itself computes in IEEE-754 doubles. For the product \<open>count1 * 60 * 5\<close> that
  arithmetic is modelled as well (\<open>count1_times_60_times_5\<close>): it agrees with the exact
  product up to \<open>count1 = 120095990063214\<close> and differs from there on, far beyond what
  clicks reach in interactive use.

  The hooks are the framework's, not the repository's. They are modelled by their
  documented contract: \<open>useState\<close> returns the stored value (the initial value on the
  first render), a setter replaces the stored value and the component is rendered again
  before the next event is handled, and \<open>useMemo\<close> runs its factory on the first render
  and on every later render whose dependency list differs from the stored one, and hands
  back the stored value otherwise.
\<close>

subsection \<open>Hook cells\<close>

type_synonym console = "string list"

record fiber =
  count1_state :: "int option"
  count2_state :: "int option"
  memo_state :: "(int list \<times> int) option"

definition unmounted :: fiber where
  "unmounted = \<lparr>count1_state = None, count2_state = None, memo_state = None\<rparr>"

definition useState :: "int \<Rightarrow> int option \<Rightarrow> int \<times> int option" where
  "useState initialState cell =
     (case cell of
        None \<Rightarrow> (initialState, Some initialState)
      | Some v \<Rightarrow> (v, Some v))"

definition setCount1 :: "int \<Rightarrow> fiber \<Rightarrow> fiber" where
  "setCount1 v f = f\<lparr>count1_state := Some v\<rparr>"

definition setCount2 :: "int \<Rightarrow> fiber \<Rightarrow> fiber" where
  "setCount2 v f = f\<lparr>count2_state := Some v\<rparr>"

definition useMemo ::
  "(console \<Rightarrow> 'a \<times> console) \<Rightarrow> 'd list \<Rightarrow> ('d list \<times> 'a) option \<Rightarrow> console
     \<Rightarrow> 'a \<times> ('d list \<times> 'a) option \<times> console" where
  "useMemo create deps cell out =
     (case cell of
        None \<Rightarrow> (let (v, out') = create out in (v, Some (deps, v), out'))
      | Some (prevDeps, prev) \<Rightarrow>
          if prevDeps = deps then (prev, cell, out)
          else (let (v, out') = create out in (v, Some (deps, v), out')))"

subsection \<open>The body of \<open>App\<close>\<close>

text \<open>
  \<open>incrementCount1\<close> and \<open>incrementCount2\<close> are closures built in each render: they
  capture that render's \<open>count1\<close> (\<open>count2\<close>), which is their first argument here.
  \<open>somethingThatTakesLong\<close> is the factory handed to \<open>useMemo\<close>: it writes one line to
  the console and returns the product, here the exact one.
\<close>

definition incrementCount1 :: "int \<Rightarrow> fiber \<Rightarrow> fiber" where
  "incrementCount1 count1 = setCount1 (count1 + 1)"

definition incrementCount2 :: "int \<Rightarrow> fiber \<Rightarrow> fiber" where
  "incrementCount2 count2 = setCount2 (count2 + 1)"

definition somethingThatTakesLong :: "int \<Rightarrow> console \<Rightarrow> int \<times> console" where
  "somethingThatTakesLong count1 out =
     (count1 * 60 * 5, out @ [''somethingThatTakesLong''])"







record element =
  shown_count1 :: int
  onClick_count1 :: "fiber \<Rightarrow> fiber"
  shown_count2 :: int
  onClick_count2 :: "fiber \<Rightarrow> fiber"
  shown_long :: int

definition App :: "fiber \<Rightarrow> console \<Rightarrow> element \<times> fiber \<times> console" where
  "App f out =
     (let (count1, c1) = useState 0 (count1_state f);
          (count2, c2) = useState 0 (count2_state f);
          (long, m, out') =
             useMemo (somethingThatTakesLong count1) [count1] (memo_state f) out
      in (\<lparr>shown_count1 = count1, onClick_count1 = incrementCount1 count1,
           shown_count2 = count2, onClick_count2 = incrementCount2 count2,
           shown_long = long\<rparr>,
          \<lparr>count1_state = c1, count2_state = c2, memo_state = m\<rparr>,
          out'))"

subsection \<open>Mounting and clicking\<close>

text \<open>
  The running application is the fiber, the console and the element tree of the last
  render. A click runs the handler found in that tree on the fiber and renders again.
\<close>

record app =
  hooks :: fiber
  console_of :: console
  screen :: element

definition render :: "fiber \<Rightarrow> console \<Rightarrow> app" where
  "render f out =
     (let (el, f', out') = App f out
      in \<lparr>hooks = f', console_of = out', screen = el\<rparr>)"

definition mount :: app where
  "mount = render unmounted []"

datatype button = IncreaseCount1 | IncreaseCount2

definition click :: "button \<Rightarrow> app \<Rightarrow> app" where
  "click b s =
     (let handler = (case b of
                       IncreaseCount1 \<Rightarrow> onClick_count1 (screen s)
                     | IncreaseCount2 \<Rightarrow> onClick_count2 (screen s))
      in render (handler (hooks s)) (console_of s))"

fun clicks :: "button list \<Rightarrow> app \<Rightarrow> app" where
  "clicks [] s = s"
| "clicks (b # bs) s = clicks bs (click b s)"

text \<open>The settled states: what the application can be after a render has completed.\<close>

inductive settled :: "app \<Rightarrow> bool" where
  settled_mount: "settled mount"
| settled_click: "settled s \<Longrightarrow> settled (click b s)"

subsection \<open>What the user observes\<close>

definition Counter1 :: "app \<Rightarrow> int" where
  "Counter1 s = shown_count1 (screen s)"

definition Counter2 :: "app \<Rightarrow> int" where
  "Counter2 s = shown_count2 (screen s)"

definition DerivedValue :: "app \<Rightarrow> int" where
  "DerivedValue s = shown_long (screen s)"

text \<open>
  The factory is the only writer of the console and writes one line per run, so the
  number of lines is the number of times the derived value has been computed.
\<close>

definition computations :: "app \<Rightarrow> nat" where
  "computations s = length (console_of s)"

text \<open>
  The states a sequence of clicks passes through, the starting state first: one entry
  per render.
\<close>

fun history :: "button list \<Rightarrow> app \<Rightarrow> app list" where
  "history [] s = [s]"
| "history (b # bs) s = s # history bs (click b s)"

text \<open>
  The number of renders in a run of states whose Counter1 differs from that of the
  render before.
\<close>

fun Counter1_changes :: "app list \<Rightarrow> nat" where
  "Counter1_changes (p # q # rest) =
     (if Counter1 q = Counter1 p then 0 else 1) + Counter1_changes (q # rest)"
| "Counter1_changes _ = 0"

section \<open>The shape of a settled state\<close>

text \<open>
  After a render with counters \<open>a\<close> and \<open>b\<close> and console \<open>out\<close> the application is
  \<open>shape a b out\<close>: the cells hold \<open>a\<close> and \<open>b\<close>, the memo cell holds the product for
  \<open>a\<close>, and the handlers on screen have captured \<open>a\<close> and \<open>b\<close>.
\<close>

definition shape :: "int \<Rightarrow> int \<Rightarrow> console \<Rightarrow> app" where
  "shape a b out =
     \<lparr>hooks = \<lparr>count1_state = Some a, count2_state = Some b,
               memo_state = Some ([a], a * 60 * 5)\<rparr>,
      console_of = out,
      screen = \<lparr>shown_count1 = a, onClick_count1 = incrementCount1 a,
                shown_count2 = b, onClick_count2 = incrementCount2 b,
                shown_long = a * 60 * 5\<rparr>\<rparr>"

lemma mount_shape: "mount = shape 0 0 [''somethingThatTakesLong'']"
  by (simp add: mount_def render_def App_def unmounted_def useState_def useMemo_def
      somethingThatTakesLong_def shape_def)

lemma click1_shape:
  "click IncreaseCount1 (shape a b out) = shape (a + 1) b (out @ [''somethingThatTakesLong''])"
  by (simp add: click_def render_def App_def useState_def useMemo_def
      somethingThatTakesLong_def shape_def incrementCount1_def setCount1_def)

lemma click2_shape:
  "click IncreaseCount2 (shape a b out) = shape a (b + 1) out"
  by (simp add: click_def render_def App_def useState_def useMemo_def
      somethingThatTakesLong_def shape_def incrementCount2_def setCount2_def)

lemma Counter1_shape [simp]: "Counter1 (shape a b out) = a"
  by (simp add: Counter1_def shape_def)

lemma Counter2_shape [simp]: "Counter2 (shape a b out) = b"
  by (simp add: Counter2_def shape_def)

lemma DerivedValue_shape [simp]: "DerivedValue (shape a b out) = a * 60 * 5"
  by (simp add: DerivedValue_def shape_def)

lemma console_shape [simp]: "console_of (shape a b out) = out"
  by (simp add: shape_def)

lemma computations_shape [simp]: "computations (shape a b out) = length out"
  by (simp add: computations_def)

lemma render_set_shape:
  "render (setCount2 w (setCount1 v (hooks (shape a b out)))) out' =
     shape v w (if v = a then out' else out' @ [''somethingThatTakesLong''])"
  by (simp add: render_def App_def useState_def useMemo_def
      somethingThatTakesLong_def shape_def setCount1_def setCount2_def)


lemma clicks_shape:
  "clicks bs (shape a b out) =
     shape (a + int (count_list bs IncreaseCount1)) (b + int (count_list bs IncreaseCount2))
       (out @ replicate (count_list bs IncreaseCount1) ''somethingThatTakesLong'')"
proof (induction bs arbitrary: a b out)
  case Nil
  show ?case by simp
next
  case (Cons x bs)
  show ?case
  proof (cases x)
    case IncreaseCount1
    then show ?thesis
      by (simp add: click1_shape Cons.IH add.assoc)
  next
    case IncreaseCount2
    then show ?thesis
      by (simp add: click2_shape Cons.IH add.assoc)
  qed
qed

lemma settled_shape:
  "settled s \<Longrightarrow>
     \<exists>a b. 0 \<le> a \<and> 0 \<le> b \<and>
       s = shape a b (replicate (nat a + 1) ''somethingThatTakesLong'')"
proof (induction rule: settled.induct)
  case settled_mount
  have "mount = shape 0 0 (replicate (nat 0 + 1) ''somethingThatTakesLong'')"
    by (simp add: mount_shape)
  then show ?case by blast
next
  case (settled_click s b)
  then obtain a c where a: "0 \<le> a" and c: "0 \<le> c"
    and s: "s = shape a c (replicate (nat a + 1) ''somethingThatTakesLong'')"
    by blast
  show ?case
  proof (cases b)
    case IncreaseCount1
    have "replicate (nat a + 1) ''somethingThatTakesLong'' @ [''somethingThatTakesLong'']
            = replicate (nat (a + 1) + 1) ''somethingThatTakesLong''"
      using a by (simp add: nat_add_distrib replicate_append_same)
    then have "click b s = shape (a + 1) c (replicate (nat (a + 1) + 1) ''somethingThatTakesLong'')"
      using s IncreaseCount1 by (simp only: click1_shape)
    moreover have "0 \<le> a + 1" using a by simp
    ultimately show ?thesis using c by blast
  next
    case IncreaseCount2
    then have "click b s = shape a (c + 1) (replicate (nat a + 1) ''somethingThatTakesLong'')"
      using s by (simp only: click2_shape)
    moreover have "0 \<le> c + 1" using c by simp
    ultimately show ?thesis using a by blast
  qed
qed

lemma settled_clicks: "settled s \<Longrightarrow> settled (clicks bs s)"
  by (induction bs arbitrary: s) (auto intro: settled.intros)

lemma visited_shape:
  "Counter1 ` set (history bs (shape a b out)) = {a .. a + int (count_list bs IncreaseCount1)}"
proof (induction bs arbitrary: a b out)
  case Nil
  show ?case by simp
next
  case (Cons x bs)
  show ?case
  proof (cases x)
    case IncreaseCount1
    then show ?thesis
      by (auto simp: click1_shape Cons.IH)
  next
    case IncreaseCount2
    then show ?thesis
      by (auto simp: click2_shape Cons.IH)
  qed
qed

lemma length_history: "length (history bs s) = length bs + 1"
  by (induction bs arbitrary: s) auto

section \<open>The initial render\<close>

text \<open>
  C5. On the initial render (the mount of the view) Counter1 is 0, Counter2 is 0 and
  the derived value is 0.
\<close>

theorem C5_initial_render:
  "Counter1 mount = 0 \<and> Counter2 mount = 0 \<and> DerivedValue mount = 0"
  by (simp add: mount_shape)

section \<open>The product in double arithmetic\<close>









section \<open>The derived value\<close>




section \<open>The counters\<close>



text \<open>
  C3. Each increment leaves the opposing counter unchanged. The handler
  \<open>incrementCount1\<close> writes no other cell than its own, on every fiber and whatever
  value it has captured, and so does \<open>incrementCount2\<close>; in every settled state a click
  on one button, with the render that follows, leaves the other counter as it was.
\<close>

theorem C3_opposing_counter_unchanged:
  assumes "settled s"
  shows "count2_state (incrementCount1 c f) = count2_state f
       \<and> count1_state (incrementCount2 c f) = count1_state f
       \<and> Counter2 (click IncreaseCount1 s) = Counter2 s
       \<and> Counter1 (click IncreaseCount2 s) = Counter1 s
       \<and> count2_state (hooks (click IncreaseCount1 s)) = count2_state (hooks s)
       \<and> count1_state (hooks (click IncreaseCount2 s)) = count1_state (hooks s)"
proof -
  from assms obtain a b out where s: "s = shape a b out"
    using settled_shape by blast
  have "count2_state (incrementCount1 c f) = count2_state f"
    and "count1_state (incrementCount2 c f) = count1_state f"
    by (simp_all add: incrementCount1_def incrementCount2_def setCount1_def setCount2_def)
  moreover have "Counter2 (click IncreaseCount1 s) = Counter2 s"
    and "Counter1 (click IncreaseCount2 s) = Counter1 s"
    by (simp_all add: s click1_shape click2_shape)
  moreover have "count2_state (hooks (click IncreaseCount1 s)) = count2_state (hooks s)"
    and "count1_state (hooks (click IncreaseCount2 s)) = count1_state (hooks s)"
    by (simp_all add: s click1_shape click2_shape) (simp_all add: shape_def)
  ultimately show ?thesis by blast
qed

theorem C3_opposing_counter_unchanged_witness:
  "settled (click IncreaseCount2 mount)
   \<and> count2_state (incrementCount1 4 unmounted) = None
   \<and> count1_state (incrementCount2 4 unmounted) = None
   \<and> Counter2 (click IncreaseCount1 (click IncreaseCount2 mount)) = 1
   \<and> Counter1 (click IncreaseCount2 (click IncreaseCount2 mount)) = 0"
proof -
  have h: "settled (click IncreaseCount2 mount)"
    by (rule settled_click [OF settled_mount])
  have c: "Counter2 (click IncreaseCount2 mount) = 1" "Counter1 (click IncreaseCount2 mount) = 0"
    by (simp_all add: mount_shape click2_shape)
  show ?thesis
    using h c C3_opposing_counter_unchanged [OF h, of 4 unmounted]
    by (simp add: unmounted_def)
qed

section \<open>When the derived value is computed\<close>

lemma history_starts: "\<exists>rest. history bs s = s # rest"
  by (cases bs) simp_all

lemma changes_shape:
  "Counter1_changes (history bs (shape a b out)) = count_list bs IncreaseCount1"
proof (induction bs arbitrary: a b out)
  case Nil
  show ?case by simp
next
  case (Cons x bs)
  obtain rest where r: "history bs (click x (shape a b out)) = click x (shape a b out) # rest"
    using history_starts by blast
  have step: "Counter1_changes (history (x # bs) (shape a b out)) =
         (if Counter1 (click x (shape a b out)) = a then 0 else 1)
           + Counter1_changes (history bs (click x (shape a b out)))"
    by (simp add: r)
  show ?case
  proof (cases x)
    case IncreaseCount1
    then show ?thesis
      unfolding step by (simp add: click1_shape Cons.IH)
  next
    case IncreaseCount2
    then show ?thesis
      unfolding step by (simp add: click2_shape Cons.IH)
  qed
qed

text \<open>
  C4. Over every sequence of renders the factory of the derived value, and with it the
  line it writes to the console, runs exactly once in a render whose Counter1 differs
  from that of the render before, and not at all in a render caused by a change of
  Counter2 alone. This holds for the render after a click, for a render after any write
  to the two cells, and summed over a sequence of clicks. One run of the factory writes
  exactly one line, and the first render, which has no render before it, runs it once.
\<close>

theorem C4_recomputation_per_render:
  assumes "settled s"
  shows "console_of (click b s) =
           console_of s @ (if Counter1 (click b s) = Counter1 s then []
                           else [''somethingThatTakesLong''])
       \<and> console_of (click IncreaseCount2 s) = console_of s
       \<and> console_of (render (setCount2 w (setCount1 v (hooks s))) (console_of s)) =
           console_of s @ (if v = Counter1 s then [] else [''somethingThatTakesLong''])
       \<and> computations (clicks bs s) = computations s + Counter1_changes (history bs s)
       \<and> snd (somethingThatTakesLong c out) = out @ [''somethingThatTakesLong'']
       \<and> console_of mount = [''somethingThatTakesLong'']"
proof -
  from assms obtain a d out' where s: "s = shape a d out'"
    using settled_shape by blast
  have "console_of (click b s) =
           console_of s @ (if Counter1 (click b s) = Counter1 s then []
                           else [''somethingThatTakesLong''])"
    by (cases b) (simp_all add: s click1_shape click2_shape)
  moreover have "console_of (click IncreaseCount2 s) = console_of s"
    by (simp add: s click2_shape)
  moreover have "console_of (render (setCount2 w (setCount1 v (hooks s))) (console_of s)) =
           console_of s @ (if v = Counter1 s then [] else [''somethingThatTakesLong''])"
    by (simp add: s render_set_shape)
  moreover have "computations (clicks bs s) = computations s + Counter1_changes (history bs s)"
    by (simp add: s clicks_shape changes_shape)
  moreover have "snd (somethingThatTakesLong c out) = out @ [''somethingThatTakesLong'']"
    by (simp add: somethingThatTakesLong_def)
  moreover have "console_of mount = [''somethingThatTakesLong'']"
    by (simp add: mount_shape)
  ultimately show ?thesis by blast
qed

theorem C4_recomputation_per_render_witness:
  "settled mount
   \<and> console_of (click IncreaseCount1 mount) =
        [''somethingThatTakesLong'', ''somethingThatTakesLong'']
   \<and> console_of (click IncreaseCount2 mount) = [''somethingThatTakesLong'']
   \<and> console_of (render (setCount2 4 (setCount1 0 (hooks mount))) (console_of mount)) =
        [''somethingThatTakesLong'']
   \<and> computations (clicks [IncreaseCount2, IncreaseCount1, IncreaseCount2] mount) = 2"
proof -
  have c: "Counter1 mount = 0" "Counter1 (click IncreaseCount1 mount) = 1"
    "Counter1 (click IncreaseCount2 mount) = 0"
    "Counter1 (click IncreaseCount1 (click IncreaseCount2 mount)) = 1"
    "Counter1 (click IncreaseCount2 (click IncreaseCount1 (click IncreaseCount2 mount))) = 1"
    by (simp_all add: mount_shape click1_shape click2_shape)
  note th = C4_recomputation_per_render [OF settled_mount, of IncreaseCount1 4 0
      "[IncreaseCount2, IncreaseCount1, IncreaseCount2]" 0 "[]"]
  from th have m: "console_of mount = [''somethingThatTakesLong'']"
    by blast
  from th have "console_of (click IncreaseCount1 mount) =
      console_of mount @ (if Counter1 (click IncreaseCount1 mount) = Counter1 mount then []
                          else [''somethingThatTakesLong''])"
    by blast
  then have t1: "console_of (click IncreaseCount1 mount) =
        [''somethingThatTakesLong'', ''somethingThatTakesLong'']"
    by (simp add: c m)
  from th have "console_of (click IncreaseCount2 mount) = console_of mount"
    by blast
  then have t2: "console_of (click IncreaseCount2 mount) = [''somethingThatTakesLong'']"
    by (simp add: m)
  from th have "console_of (render (setCount2 4 (setCount1 0 (hooks mount))) (console_of mount)) =
      console_of mount @ (if 0 = Counter1 mount then [] else [''somethingThatTakesLong''])"
    by blast
  then have t3: "console_of (render (setCount2 4 (setCount1 0 (hooks mount))) (console_of mount)) =
        [''somethingThatTakesLong'']"
    by (simp only: c m if_True append_Nil2 refl)
  from th have "computations (clicks [IncreaseCount2, IncreaseCount1, IncreaseCount2] mount) =
      computations mount
        + Counter1_changes (history [IncreaseCount2, IncreaseCount1, IncreaseCount2] mount)"
    by blast
  then have t4: "computations (clicks [IncreaseCount2, IncreaseCount1, IncreaseCount2] mount) = 2"
    by (simp add: c computations_def m)
  show ?thesis using settled_mount t1 t2 t3 t4 by blast
qed

section \<open>Scenarios\<close>

lemma visited_after_mount:
  "Counter1 ` set (history bs mount) - {Counter1 mount} = {1 .. int (count_list bs IncreaseCount1)}"
  by (auto simp: mount_shape visited_shape)

text \<open>
  C6. Starting from the mounted application, three clicks on "Increase Count1" give
  Counter1 = 3, Counter2 = 0, a derived value of 900 and three recomputations, that is
  three runs of the factory after the one run of the mount. For every sequence of clicks the
  number of recomputations since the mount is the number of distinct values of Counter1
  visited besides the mounted one; the number of renders is one more than the number of
  clicks.
\<close>

theorem C6_three_clicks_on_count1:
  "Counter1 (clicks [IncreaseCount1, IncreaseCount1, IncreaseCount1] mount) = 3
   \<and> Counter2 (clicks [IncreaseCount1, IncreaseCount1, IncreaseCount1] mount) = 0
   \<and> DerivedValue (clicks [IncreaseCount1, IncreaseCount1, IncreaseCount1] mount) = 900
   \<and> computations (clicks [IncreaseCount1, IncreaseCount1, IncreaseCount1] mount)
        = computations mount + 3
   \<and> computations mount = 1
   \<and> computations (clicks bs mount)
        = computations mount + card (Counter1 ` set (history bs mount) - {Counter1 mount})
   \<and> length (history bs mount) = length bs + 1"
proof -
  have "computations (clicks bs mount)
        = computations mount + card (Counter1 ` set (history bs mount) - {Counter1 mount})"
    unfolding visited_after_mount by (simp add: mount_shape clicks_shape)
  moreover have "Counter1 (clicks [IncreaseCount1, IncreaseCount1, IncreaseCount1] mount) = 3"
    and "Counter2 (clicks [IncreaseCount1, IncreaseCount1, IncreaseCount1] mount) = 0"
    and "DerivedValue (clicks [IncreaseCount1, IncreaseCount1, IncreaseCount1] mount) = 900"
    and "computations (clicks [IncreaseCount1, IncreaseCount1, IncreaseCount1] mount)
        = computations mount + 3"
    by (simp_all add: mount_shape click1_shape)
  moreover have "computations mount = 1"
    by (simp add: mount_shape)
  ultimately show ?thesis by (simp add: length_history)
qed




section \<open>Determinism, bounds and steps of the derived value\<close>

text \<open>
  C8. The derived value is deterministic and pure: any two settled states with the same
  Counter1 show the same derived value, whatever Counter2 and the console are; the
  factory returns the same number for the same \<open>count1\<close> on any console, and its only
  effect is the one line it appends.
\<close>

theorem C8_deterministic:
  assumes "settled s" and "settled t" and "Counter1 s = Counter1 t"
  shows "DerivedValue s = DerivedValue t
       \<and> fst (somethingThatTakesLong c out) = fst (somethingThatTakesLong c out')
       \<and> snd (somethingThatTakesLong c out) = out @ [''somethingThatTakesLong'']"
proof -
  from assms(1) obtain a b o1 where s: "s = shape a b o1"
    using settled_shape by blast
  from assms(2) obtain a' b' o2 where t: "t = shape a' b' o2"
    using settled_shape by blast
  from assms(3) have "a = a'" by (simp add: s t)
  then have "DerivedValue s = DerivedValue t" by (simp add: s t)
  then show ?thesis by (simp add: somethingThatTakesLong_def)
qed

theorem C8_deterministic_witness:
  "settled (click IncreaseCount1 mount)
   \<and> settled (click IncreaseCount1 (click IncreaseCount2 (click IncreaseCount2 mount)))
   \<and> Counter1 (click IncreaseCount1 mount)
       = Counter1 (click IncreaseCount1 (click IncreaseCount2 (click IncreaseCount2 mount)))
   \<and> Counter2 (click IncreaseCount1 mount)
       \<noteq> Counter2 (click IncreaseCount1 (click IncreaseCount2 (click IncreaseCount2 mount)))
   \<and> DerivedValue (click IncreaseCount1 mount)
       = DerivedValue (click IncreaseCount1 (click IncreaseCount2 (click IncreaseCount2 mount)))"
proof -
  have h1: "settled (click IncreaseCount1 mount)"
    by (intro settled.intros)
  have h2: "settled (click IncreaseCount1 (click IncreaseCount2 (click IncreaseCount2 mount)))"
    by (intro settled.intros)
  have h3: "Counter1 (click IncreaseCount1 mount)
       = Counter1 (click IncreaseCount1 (click IncreaseCount2 (click IncreaseCount2 mount)))"
    by (simp add: mount_shape click1_shape click2_shape)
  have h4: "Counter2 (click IncreaseCount1 mount)
       \<noteq> Counter2 (click IncreaseCount1 (click IncreaseCount2 (click IncreaseCount2 mount)))"
    by (simp add: mount_shape click1_shape click2_shape)
  from C8_deterministic [OF h1 h2 h3, of 0 "[]" "[]"] h1 h2 h3 h4 show ?thesis
    by blast
qed

text \<open>
  C9. In every state reachable from the mounted application by clicks, Counter1 and
  Counter2 are at least 0, and so is the derived value.
\<close>

theorem C9_counters_nonnegative:
  assumes "settled s"
  shows "0 \<le> Counter1 s \<and> 0 \<le> Counter2 s \<and> 0 \<le> DerivedValue s"
proof -
  from assms obtain a b where "0 \<le> a" and "0 \<le> b"
    and "s = shape a b (replicate (nat a + 1) ''somethingThatTakesLong'')"
    using settled_shape by blast
  then show ?thesis by simp
qed

theorem C9_counters_nonnegative_witness:
  "settled (click IncreaseCount2 (click IncreaseCount1 mount))
   \<and> 0 \<le> Counter1 (click IncreaseCount2 (click IncreaseCount1 mount))
   \<and> 0 \<le> Counter2 (click IncreaseCount2 (click IncreaseCount1 mount))
   \<and> 0 \<le> DerivedValue (click IncreaseCount2 (click IncreaseCount1 mount))"
proof -
  have h: "settled (click IncreaseCount2 (click IncreaseCount1 mount))"
    by (intro settled.intros)
  from C9_counters_nonnegative [OF h] h show ?thesis
    by blast
qed



end
